theory Spec2Isabelle
  imports Main "HOL-Library.Word"
begin

section \<open>SoundMaker: the player supervisor and the source state machine\<close>

text \<open>
  The development follows the Python sources \<^verbatim>\<open>stream_player.py\<close>,
  \<^verbatim>\<open>audio_controller.py\<close>, \<^verbatim>\<open>airplay_manager.py\<close>, \<^verbatim>\<open>player.py\<close> and
  \<^verbatim>\<open>led_controller.py\<close>. Objects are records, every method takes the state it reads
  and returns the state it leaves, and everything the operating system decides (whether
  mpv is installed, whether a child has exited, what a read returns) is an explicit
  argument of the method that asks for it.
\<close>

subsection \<open>The operating system's view of the child processes\<close>

text \<open>
  A \<^verbatim>\<open>subprocess.Popen\<close> handle is the index of the child in the table of all
  children ever spawned. The table records whether each child still runs; \<open>calls\<close> is
  the log of the process-control calls the program has made.
\<close>

datatype pstatus = Running | Exited int

datatype os_call = Popen_call nat | Terminate_call nat | Kill_call nat

record os_state =
  procs :: "pstatus list"
  calls :: "os_call list"

text \<open>
  \<^verbatim>\<open>Popen.poll()\<close>: None while the child runs, its return code afterwards. Handles come
  from \<^verbatim>\<open>Popen\<close> only, so they always index the table (lemma \<open>handle_in_table\<close> below).
\<close>

definition poll :: "os_state \<Rightarrow> nat \<Rightarrow> int option" where
  "poll os pid =
     (if pid < length (procs os)
      then (case procs os ! pid of Running \<Rightarrow> None | Exited c \<Rightarrow> Some c)
      else None)"

text \<open>The environment: a running child exits with a return code.\<close>

definition proc_exit :: "nat \<Rightarrow> int \<Rightarrow> os_state \<Rightarrow> os_state" where
  "proc_exit pid code os =
     (if pid < length (procs os) \<and> procs os ! pid = Running
      then os\<lparr>procs := (procs os)[pid := Exited code]\<rparr>
      else os)"

subsection \<open>\<^verbatim>\<open>stream_player.py\<close>: class StreamPlayer\<close>

record StreamPlayer =
  stream_url :: string
  volume :: int
  process :: "nat option"
  restart_count :: int
  max_restart_attempts :: int
  restart_delay :: int
  is_playing_flag :: bool

definition StreamPlayer_init :: "string \<Rightarrow> int \<Rightarrow> StreamPlayer" where
  "StreamPlayer_init url vol =
     \<lparr>stream_url = url, volume = vol, process = None, restart_count = 0,
      max_restart_attempts = 10, restart_delay = 3, is_playing_flag = False\<rparr>"

text \<open>
  \<^verbatim>\<open>is_mpv_available\<close> runs \<^verbatim>\<open>mpv --version\<close>: a return code, or one of the two
  exceptions the method catches.
\<close>

datatype mpv_probe = ProbeReturn int | ProbeFileNotFound | ProbeTimeout

definition is_mpv_available :: "mpv_probe \<Rightarrow> bool" where
  "is_mpv_available pr =
     (case pr of ProbeReturn rc \<Rightarrow> rc = 0 | ProbeFileNotFound \<Rightarrow> False | ProbeTimeout \<Rightarrow> False)"

text \<open>
  What \<^verbatim>\<open>subprocess.Popen\<close> and the one-second grace window do in \<^verbatim>\<open>start\<close>:
  \<^verbatim>\<open>Popen\<close> raises one of the three exception classes the method distinguishes, or it
  returns a child that either still runs after the sleep or has exited with a code. In
  the second case \<open>stderr_ok\<close> says whether reading the child's error stream succeeds;
  when it raises, control reaches the generic \<^verbatim>\<open>except Exception\<close> branch.
\<close>

datatype after_sleep = StillRunning | ExitedEarly int bool

datatype popen_outcome =
  PopenFileNotFoundError | PopenPermissionError | PopenOtherError | PopenOk after_sleep

record start_env =
  probe :: mpv_probe
  popen :: popen_outcome

definition spawn :: "pstatus \<Rightarrow> os_state \<Rightarrow> os_state" where
  "spawn st os =
     os\<lparr>procs := procs os @ [st], calls := calls os @ [Popen_call (length (procs os))]\<rparr>"

definition start :: "start_env \<Rightarrow> os_state \<times> StreamPlayer \<Rightarrow> bool \<times> os_state \<times> StreamPlayer" where
  "start env s =
     (case s of (os, p) \<Rightarrow>
        if \<not> is_mpv_available (probe env) then (False, os, p)
        else (case popen env of
            PopenOk StillRunning \<Rightarrow>
              (True, spawn Running os,
               p\<lparr>process := Some (length (procs os)), is_playing_flag := True\<rparr>)
          | PopenOk (ExitedEarly code stderr_ok) \<Rightarrow>
              (if stderr_ok
               then (False, spawn (Exited code) os, p\<lparr>process := None\<rparr>)
               else (False, spawn (Exited code) os, p\<lparr>process := None\<rparr>))
          | PopenFileNotFoundError \<Rightarrow> (False, os, p)
          | PopenPermissionError \<Rightarrow> (False, os, p)
          | PopenOtherError \<Rightarrow> (False, os, p\<lparr>process := None\<rparr>)))"

text \<open>
  \<^verbatim>\<open>stop\<close>: \<^verbatim>\<open>terminate()\<close>, then \<^verbatim>\<open>wait(timeout=5)\<close>; on \<^verbatim>\<open>TimeoutExpired\<close>,
  \<^verbatim>\<open>kill()\<close> and \<^verbatim>\<open>wait()\<close>. The \<^verbatim>\<open>finally\<close> clause clears the handle and the flag.
  The environment says whether a running child exits within the five seconds, and with
  which code it ends. On a child that has already exited \<^verbatim>\<open>terminate()\<close> does nothing
  and \<^verbatim>\<open>wait\<close> returns at once. \<^verbatim>\<open>terminate\<close>, \<^verbatim>\<open>kill\<close> and \<^verbatim>\<open>wait()\<close> raise
  nothing on a child of the program's own.
\<close>

datatype stop_env = ExitsInTime int | TimesOut int

definition stop :: "stop_env \<Rightarrow> os_state \<times> StreamPlayer \<Rightarrow> os_state \<times> StreamPlayer" where
  "stop env s =
     (case s of (os, p) \<Rightarrow>
        (case process p of
           None \<Rightarrow> (os, p)
         | Some pid \<Rightarrow>
             (let os1 = os\<lparr>calls := calls os @ [Terminate_call pid]\<rparr>;
                  p' = p\<lparr>process := None, is_playing_flag := False\<rparr>
              in case poll os pid of
                   Some c \<Rightarrow> (os1, p')
                 | None \<Rightarrow>
                     (case env of
                        ExitsInTime c \<Rightarrow> (proc_exit pid c os1, p')
                      | TimesOut c \<Rightarrow>
                          (proc_exit pid c (os1\<lparr>calls := calls os1 @ [Kill_call pid]\<rparr>), p')))))"

definition is_playing :: "os_state \<Rightarrow> StreamPlayer \<Rightarrow> bool \<times> StreamPlayer" where
  "is_playing os p =
     (case process p of
        None \<Rightarrow> (False, p)
      | Some pid \<Rightarrow>
          (case poll os pid of
             Some c \<Rightarrow> (False, p\<lparr>is_playing_flag := False\<rparr>)
           | None \<Rightarrow> (is_playing_flag p, p)))"

text \<open>
  \<^verbatim>\<open>wait\<close>: -1 without a handle; otherwise it blocks until the child has exited and
  returns its code (\<open>code\<close> is the code a still running child will exit with).
\<close>

definition wait :: "int \<Rightarrow> os_state \<times> StreamPlayer \<Rightarrow> int \<times> os_state \<times> StreamPlayer" where
  "wait code s =
     (case s of (os, p) \<Rightarrow>
        (case process p of
           None \<Rightarrow> (- 1, os, p)
         | Some pid \<Rightarrow>
             (case poll os pid of
                Some c \<Rightarrow> (c, os, p\<lparr>is_playing_flag := False\<rparr>)
              | None \<Rightarrow> (code, proc_exit pid code os, p\<lparr>is_playing_flag := False\<rparr>))))"

definition reset_restart_count :: "StreamPlayer \<Rightarrow> StreamPlayer" where
  "reset_restart_count p = p\<lparr>restart_count := 0\<rparr>"

definition increment_restart_count :: "StreamPlayer \<Rightarrow> bool \<times> StreamPlayer" where
  "increment_restart_count p =
     (let p' = p\<lparr>restart_count := restart_count p + 1\<rparr>
      in (restart_count p' \<ge> max_restart_attempts p', p'))"

subsection \<open>\<^verbatim>\<open>audio_controller.py\<close>: class AudioController\<close>

datatype AudioState = STREAMING | AIRPLAY | IDLE | TRANSITIONING

text \<open>The \<^verbatim>\<open>value\<close> of each member of the enum \<^verbatim>\<open>AudioState\<close>.\<close>

fun audio_state_value :: "AudioState \<Rightarrow> string" where
  "audio_state_value STREAMING = ''streaming''"
| "audio_state_value AIRPLAY = ''airplay''"
| "audio_state_value IDLE = ''idle''"
| "audio_state_value TRANSITIONING = ''transitioning''"

text \<open>
  The controller's own copies of the URL and the volume are \<open>ctl_stream_url\<close> and
  \<open>ctl_volume\<close> (the player's fields have the plain names).
\<close>

record AudioController =
  stream_player :: StreamPlayer
  state :: AudioState
  ctl_stream_url :: string
  ctl_volume :: int

definition AudioController_init :: "string \<Rightarrow> int \<Rightarrow> AudioController" where
  "AudioController_init url vol =
     \<lparr>stream_player = StreamPlayer_init url vol, state = IDLE, ctl_stream_url = url, ctl_volume = vol\<rparr>"

definition start_streaming ::
  "start_env \<Rightarrow> os_state \<times> AudioController \<Rightarrow> bool \<times> os_state \<times> AudioController" where
  "start_streaming env s =
     (case s of (os, c) \<Rightarrow>
        if state c = AIRPLAY then (False, os, c)
        else if state c = STREAMING \<and> fst (is_playing os (stream_player c)) then (True, os, c)
        else
          (let c1 = (if state c = STREAMING
                     then c\<lparr>stream_player := snd (is_playing os (stream_player c)), state := IDLE\<rparr>
                     else c);
               c2 = c1\<lparr>state := TRANSITIONING\<rparr>
           in case start env (os, stream_player c2) of
                (True, os', p') \<Rightarrow> (True, os', c2\<lparr>stream_player := p', state := STREAMING\<rparr>)
              | (False, os', p') \<Rightarrow> (False, os', c2\<lparr>stream_player := p', state := IDLE\<rparr>)))"

definition stop_streaming ::
  "stop_env \<Rightarrow> os_state \<times> AudioController \<Rightarrow> os_state \<times> AudioController" where
  "stop_streaming env s =
     (case s of (os, c) \<Rightarrow>
        if state c = STREAMING
        then (case stop env (os, stream_player c) of
                (os', p') \<Rightarrow> (os', c\<lparr>stream_player := p', state := IDLE\<rparr>))
        else if state c = TRANSITIONING then (os, c\<lparr>state := IDLE\<rparr>)
        else (os, c))"

definition switch_to_airplay ::
  "stop_env \<Rightarrow> os_state \<times> AudioController \<Rightarrow> bool \<times> os_state \<times> AudioController" where
  "switch_to_airplay env s =
     (case s of (os, c) \<Rightarrow>
        if state c = AIRPLAY then (True, os, c)
        else
          (case (if state c = STREAMING then stop_streaming env (os, c) else (os, c)) of
             (os', c') \<Rightarrow> (True, os', c'\<lparr>state := AIRPLAY\<rparr>)))"

definition switch_to_streaming ::
  "start_env \<Rightarrow> os_state \<times> AudioController \<Rightarrow> bool \<times> os_state \<times> AudioController" where
  "switch_to_streaming env s =
     (case s of (os, c) \<Rightarrow>
        if state c = STREAMING \<and> fst (is_playing os (stream_player c)) then (True, os, c)
        else
          (let c1 = (if state c = STREAMING
                     then c\<lparr>stream_player := snd (is_playing os (stream_player c)), state := IDLE\<rparr>
                     else c);
               c2 = (if state c1 = AIRPLAY then c1\<lparr>state := IDLE\<rparr> else c1)
           in start_streaming env (os, c2)))"

definition get_state :: "AudioController \<Rightarrow> AudioState" where
  "get_state c = state c"

definition handle_stream_exit :: "int \<Rightarrow> AudioController \<Rightarrow> bool \<times> AudioController" where
  "handle_stream_exit return_code c =
     (if state c \<noteq> STREAMING then (False, c)
      else if return_code = 0 then (False, c)
      else (case increment_restart_count (stream_player c) of
              (True, p') \<Rightarrow> (False, c\<lparr>stream_player := p'\<rparr>)
            | (False, p') \<Rightarrow> (True, c\<lparr>stream_player := p'\<rparr>)))"

definition shutdown ::
  "stop_env \<Rightarrow> os_state \<times> AudioController \<Rightarrow> os_state \<times> AudioController" where
  "shutdown env s =
     (case stop_streaming env s of (os', c') \<Rightarrow> (os', c'\<lparr>state := IDLE\<rparr>))"


subsection \<open>Python text\<close>

text \<open>
  A Python \<^verbatim>\<open>str\<close> is the list of its code points; \<open>py_str\<close> embeds a literal.
  \<open>utf8_decode\<close> is \<^verbatim>\<open>bytes.decode('utf-8')\<close> with strict error handling: None stands
  for \<^verbatim>\<open>UnicodeDecodeError\<close> (truncated and overlong sequences, surrogates, code points
  above U+10FFFF, stray continuation bytes).
\<close>

type_synonym byte = "8 word"

type_synonym py_text = "nat list"

definition py_str :: "string \<Rightarrow> py_text" where
  "py_str s = map of_char s"

definition cont :: "byte \<Rightarrow> bool" where
  "cont b = (0x80 \<le> b \<and> b \<le> 0xBF)"

fun utf8_decode :: "byte list \<Rightarrow> py_text option" where
  "utf8_decode [] = Some []"
| "utf8_decode (b # bs) =
     (if b < 0x80 then map_option ((#) (unat b)) (utf8_decode bs)
      else if 0xC2 \<le> b \<and> b \<le> 0xDF then
        (case bs of
           b1 # r \<Rightarrow>
             if cont b1
             then map_option ((#) ((unat b - 0xC0) * 64 + (unat b1 - 0x80))) (utf8_decode r)
             else None
         | _ \<Rightarrow> None)
      else if 0xE0 \<le> b \<and> b \<le> 0xEF then
        (case bs of
           b1 # b2 # r \<Rightarrow>
             if cont b1 \<and> cont b2
                \<and> (if b = 0xE0 then 0xA0 \<le> b1 else True)
                \<and> (if b = 0xED then b1 \<le> 0x9F else True)
             then map_option
                    ((#) ((unat b - 0xE0) * 4096 + (unat b1 - 0x80) * 64 + (unat b2 - 0x80)))
                    (utf8_decode r)
             else None
         | _ \<Rightarrow> None)
      else if 0xF0 \<le> b \<and> b \<le> 0xF4 then
        (case bs of
           b1 # b2 # b3 # r \<Rightarrow>
             if cont b1 \<and> cont b2 \<and> cont b3
                \<and> (if b = 0xF0 then 0x90 \<le> b1 else True)
                \<and> (if b = 0xF4 then b1 \<le> 0x8F else True)
             then map_option
                    ((#) ((unat b - 0xF0) * 262144 + (unat b1 - 0x80) * 4096
                          + (unat b2 - 0x80) * 64 + (unat b3 - 0x80)))
                    (utf8_decode r)
             else None
         | _ \<Rightarrow> None)
      else None)"

text \<open>The code points \<^verbatim>\<open>str.isspace\<close> accepts; \<^verbatim>\<open>str.strip()\<close> removes them at both ends.\<close>

definition py_isspace :: "nat \<Rightarrow> bool" where
  "py_isspace c =
     ((0x09 \<le> c \<and> c \<le> 0x0D) \<or> (0x1C \<le> c \<and> c \<le> 0x20) \<or> c = 0x85 \<or> c = 0xA0
      \<or> c = 0x1680 \<or> (0x2000 \<le> c \<and> c \<le> 0x200A) \<or> c = 0x2028 \<or> c = 0x2029
      \<or> c = 0x202F \<or> c = 0x205F \<or> c = 0x3000)"

definition py_strip :: "py_text \<Rightarrow> py_text" where
  "py_strip s = rev (dropWhile py_isspace (rev (dropWhile py_isspace s)))"

text \<open>
  \<^verbatim>\<open>str.lower()\<close>: on text within ASCII it maps A-Z to a-z and changes nothing else.
  What it does to a text with other characters is the Unicode case table of the Python
  runtime, which is taken as the parameter \<open>tbl\<close>.
\<close>

definition ascii_lower :: "nat \<Rightarrow> nat" where
  "ascii_lower c = (if 0x41 \<le> c \<and> c \<le> 0x5A then c + 0x20 else c)"

definition py_lower :: "(py_text \<Rightarrow> py_text) \<Rightarrow> py_text \<Rightarrow> py_text" where
  "py_lower tbl s = (if list_all (\<lambda>c. c < 0x80) s then map ascii_lower s else tbl s)"

subsection \<open>Exceptions and handlers\<close>

text \<open>
  The exceptions the calls of \<^verbatim>\<open>check_event\<close> raise, and the classes its
  \<^verbatim>\<open>except\<close> clauses name. \<open>isinstance\<close> is the subclass relation of Python's
  exception hierarchy.
\<close>

datatype py_exn = OSError | UnicodeDecodeError | ValueError

datatype exn_class = OSError_class | UnicodeDecodeError_class | Exception_class

fun isinstance :: "py_exn \<Rightarrow> exn_class \<Rightarrow> bool" where
  "isinstance e Exception_class = True"
| "isinstance e OSError_class = (e = OSError)"
| "isinstance e UnicodeDecodeError_class = (e = UnicodeDecodeError)"

subsection \<open>\<^verbatim>\<open>airplay_manager.py\<close>: the event channel reader\<close>

text \<open>The log of \<^verbatim>\<open>os.open\<close> and \<^verbatim>\<open>os.close\<close> calls on the pipe, with their outcomes.\<close>

datatype fd_call = Open_call "int option" | Close_call int bool

record AirPlayManager =
  pipe_path :: string
  pipe_fd :: "int option"
  is_connected_flag :: bool

definition AirPlayManager_init :: "AirPlayManager" where
  "AirPlayManager_init =
     \<lparr>pipe_path = ''/tmp/soundmaker_airplay_events'', pipe_fd = None, is_connected_flag = False\<rparr>"

text \<open>
  \<^verbatim>\<open>open_pipe\<close>: the pipe does not exist, or \<^verbatim>\<open>os.open\<close> raises \<^verbatim>\<open>OSError\<close>,
  or it returns a descriptor.
\<close>

datatype open_outcome = PipeMissing | OpenRaises | OpenReturns int

definition open_pipe ::
  "open_outcome \<Rightarrow> fd_call list \<times> AirPlayManager \<Rightarrow> bool \<times> fd_call list \<times> AirPlayManager" where
  "open_pipe oc s =
     (case s of (fds, m) \<Rightarrow>
        (case oc of
           PipeMissing \<Rightarrow> (False, fds, m)
         | OpenRaises \<Rightarrow> (False, fds @ [Open_call None], m)
         | OpenReturns fd \<Rightarrow> (True, fds @ [Open_call (Some fd)], m\<lparr>pipe_fd := Some fd\<rparr>)))"

text \<open>
  \<^verbatim>\<open>close_pipe\<close>: \<open>ok\<close> says whether \<^verbatim>\<open>os.close\<close> succeeds; when it raises, the
  assignment after it is skipped and the exception is logged.
\<close>

definition close_pipe :: "bool \<Rightarrow> fd_call list \<times> AirPlayManager \<Rightarrow> fd_call list \<times> AirPlayManager" where
  "close_pipe ok s =
     (case s of (fds, m) \<Rightarrow>
        (case pipe_fd m of
           None \<Rightarrow> (fds, m)
         | Some fd \<Rightarrow>
             if ok then (fds @ [Close_call fd True], m\<lparr>pipe_fd := None\<rparr>)
             else (fds @ [Close_call fd False], m)))"

definition cleanup :: "bool \<Rightarrow> fd_call list \<times> AirPlayManager \<Rightarrow> fd_call list \<times> AirPlayManager" where
  "cleanup ok s = close_pipe ok s"

text \<open>
  What the operating system does during one \<^verbatim>\<open>check_event\<close>: the outcome of
  \<^verbatim>\<open>open_pipe\<close> when no descriptor is held at entry, of \<^verbatim>\<open>select.select\<close> (an
  exception, or whether the descriptor is ready), of \<^verbatim>\<open>os.read\<close> (an exception, or the
  bytes waiting in the pipe, of which the call takes at most 64), and, for the
  \<^verbatim>\<open>OSError\<close> handler, of \<^verbatim>\<open>os.close\<close>, \<^verbatim>\<open>pipe_path.exists()\<close> and the second
  \<^verbatim>\<open>open_pipe\<close>.
\<close>

record check_env =
  reopen :: open_outcome
  select_res :: "py_exn + bool"
  read_res :: "py_exn + byte list"
  close_ok :: bool
  exists_after :: bool
  reopen_after :: open_outcome

text \<open>
  The body of the inner \<^verbatim>\<open>try\<close>: read, decode, strip, lower, classify. \<open>Inr (Some e)\<close>
  is \<^verbatim>\<open>return event\<close>; \<open>Inr None\<close> is reaching the end of the block.
\<close>

definition read_event :: "(py_text \<Rightarrow> py_text) \<Rightarrow> py_exn + byte list \<Rightarrow> py_exn + py_text option" where
  "read_event tbl rd =
     (case rd of
        Inl e \<Rightarrow> Inl e
      | Inr pending \<Rightarrow>
          (case utf8_decode (take 64 pending) of
             None \<Rightarrow> Inl UnicodeDecodeError
           | Some txt \<Rightarrow>
               (let data = py_strip txt
                in if data \<noteq> []
                   then (let event = py_lower tbl data
                         in if event = py_str ''connect'' \<or> event = py_str ''disconnect''
                            then Inr (Some event)
                            else Inr None)
                   else Inr None)))"

text \<open>
  The two handlers of the inner \<^verbatim>\<open>try\<close> log and fall through; an exception neither of
  them matches leaves the block.
\<close>

definition inner_try :: "(py_text \<Rightarrow> py_text) \<Rightarrow> py_exn + byte list \<Rightarrow> py_exn + py_text option" where
  "inner_try tbl rd =
     (case read_event tbl rd of
        Inr r \<Rightarrow> Inr r
      | Inl e \<Rightarrow>
          if isinstance e UnicodeDecodeError_class then Inr None
          else if isinstance e Exception_class then Inr None
          else Inl e)"

text \<open>
  The outer \<^verbatim>\<open>try\<close> of \<^verbatim>\<open>check_event\<close>, entered with a descriptor at hand:
  \<^verbatim>\<open>select\<close>, then the inner block; the \<^verbatim>\<open>OSError\<close> handler closes the pipe and
  opens it again if its path exists, the \<^verbatim>\<open>Exception\<close> handler logs.
\<close>

definition poll_pipe ::
  "(py_text \<Rightarrow> py_text) \<Rightarrow> check_env \<Rightarrow> fd_call list \<times> AirPlayManager
   \<Rightarrow> (py_exn + py_text option) \<times> fd_call list \<times> AirPlayManager" where
  "poll_pipe tbl env s1 =
     (case (case select_res env of
              Inl e \<Rightarrow> Inl e
            | Inr ready \<Rightarrow> if ready then inner_try tbl (read_res env) else Inr None) of
        Inr (Some event) \<Rightarrow> (Inr (Some event), s1)
      | Inr None \<Rightarrow> (Inr None, s1)
      | Inl e \<Rightarrow>
          if isinstance e OSError_class
          then (let s2 = close_pipe (close_ok env) s1
                in (Inr None,
                    if exists_after env then snd (open_pipe (reopen_after env) s2) else s2))
          else if isinstance e Exception_class then (Inr None, s1)
          else (Inl e, s1))"

text \<open>\<^verbatim>\<open>check_event\<close>: without a descriptor the pipe is opened first.\<close>

definition check_event ::
  "(py_text \<Rightarrow> py_text) \<Rightarrow> check_env \<Rightarrow> fd_call list \<times> AirPlayManager
   \<Rightarrow> (py_exn + py_text option) \<times> fd_call list \<times> AirPlayManager" where
  "check_event tbl env s =
     (if pipe_fd (snd s) = None
      then (case open_pipe (reopen env) s of
              (False, s1) \<Rightarrow> (Inr None, s1)
            | (True, s1) \<Rightarrow> poll_pipe tbl env s1)
      else poll_pipe tbl env s)"

subsection \<open>\<^verbatim>\<open>player.py\<close>: the status file\<close>

text \<open>
  The two files \<^verbatim>\<open>write_state_file\<close> touches: \<^verbatim>\<open>/tmp/soundmaker_state\<close> and
  \<^verbatim>\<open>/tmp/soundmaker_state.tmp\<close>, each absent or holding a text. A reader running
  beside the program may look at the files after any single file operation, so the
  function returns the successive states of the file system it produces, in order.
\<close>

record fs_state =
  state_file :: "py_text option"
  temp_file :: "py_text option"

text \<open>The argument is an \<^verbatim>\<open>AudioState\<close> or a string.\<close>

datatype state_arg = EnumArg AudioState | StrArg py_text

text \<open>
  Where the body of the \<^verbatim>\<open>try\<close> may fail (every failure is caught and logged):
  \<^verbatim>\<open>mkdir\<close>, \<^verbatim>\<open>open\<close>, the write (after some characters have reached the temporary
  file), or \<^verbatim>\<open>replace\<close>.
\<close>

datatype write_outcome = MkdirFails | OpenFails | WriteFails nat | ReplaceFails | WriteOk

definition state_str :: "(py_text \<Rightarrow> py_text) \<Rightarrow> state_arg \<Rightarrow> py_text" where
  "state_str tbl a =
     (case a of EnumArg st \<Rightarrow> py_str (audio_state_value st) | StrArg t \<Rightarrow> py_lower tbl t)"

definition write_state_file_steps ::
  "(py_text \<Rightarrow> py_text) \<Rightarrow> write_outcome \<Rightarrow> state_arg \<Rightarrow> fs_state \<Rightarrow> fs_state list" where
  "write_state_file_steps tbl wo a fs =
     (let line = state_str tbl a @ [0x0A];
          opened = fs\<lparr>temp_file := Some []\<rparr>;
          written = fs\<lparr>temp_file := Some line\<rparr>;
          replaced = fs\<lparr>state_file := Some line, temp_file := None\<rparr>
      in case wo of
           MkdirFails \<Rightarrow> []
         | OpenFails \<Rightarrow> []
         | WriteFails n \<Rightarrow> [opened, fs\<lparr>temp_file := Some (take n line)\<rparr>]
         | ReplaceFails \<Rightarrow> [opened, written]
         | WriteOk \<Rightarrow> [opened, written, replaced])"

text \<open>The history of the file system, oldest state first; the last one is the current.\<close>

definition write_state_file ::
  "(py_text \<Rightarrow> py_text) \<Rightarrow> write_outcome \<Rightarrow> state_arg \<Rightarrow> fs_state list \<Rightarrow> fs_state list" where
  "write_state_file tbl wo a hist = hist @ write_state_file_steps tbl wo a (last hist)"

text \<open>
  \<^verbatim>\<open>led_controller.py\<close>, \<^verbatim>\<open>read_state\<close>: the reader of the status file. A missing file
  and an invalid content both give None.
\<close>

definition read_state :: "(py_text \<Rightarrow> py_text) \<Rightarrow> fs_state \<Rightarrow> py_text option" where
  "read_state tbl fs =
     (case state_file fs of
        None \<Rightarrow> None
      | Some content \<Rightarrow>
          (let st = py_lower tbl (py_strip content)
           in if st = py_str ''streaming'' \<or> st = py_str ''airplay'' \<or> st = py_str ''idle''
              then Some st else None))"

subsection \<open>\<^verbatim>\<open>player.py\<close>: the supervisory loop\<close>

record main_state =
  m_os :: os_state
  m_fds :: "fd_call list"
  m_files :: "fs_state list"
  audio_controller :: AudioController
  airplay_manager :: "AirPlayManager option"
  last_state :: "AudioState option"

text \<open>
  \<^verbatim>\<open>signal_handler\<close>: publish \<^verbatim>\<open>'idle'\<close>, shut the controller down, clean the manager up
  (the process then exits).
\<close>

record signal_env =
  sh_write :: write_outcome
  sh_stop :: stop_env
  sh_close :: bool

definition signal_handler :: "(py_text \<Rightarrow> py_text) \<Rightarrow> signal_env \<Rightarrow> main_state \<Rightarrow> main_state" where
  "signal_handler tbl env ms =
     (let files = write_state_file tbl (sh_write env) (StrArg (py_str ''idle'')) (m_files ms);
          (os', c') = shutdown (sh_stop env) (m_os ms, audio_controller ms);
          (fds', am') = (case airplay_manager ms of
                           None \<Rightarrow> (m_fds ms, None)
                         | Some am \<Rightarrow>
                             (case cleanup (sh_close env) (m_fds ms, am) of
                                (fds, am1) \<Rightarrow> (fds, Some am1)))
      in ms\<lparr>m_os := os', m_fds := fds', m_files := files, audio_controller := c',
            airplay_manager := am'\<rparr>)"

text \<open>
  What the environment does during one iteration of the loop. \<open>exits_before\<close> and
  \<open>exits_mid\<close> are the children that exit (with their return codes) before the
  iteration and between its event handling and its monitoring.
\<close>

record iter_env =
  exits_before :: "(nat \<times> int) list"
  ev_check :: check_env
  ev_stop :: stop_env
  ev_start :: start_env
  w_event :: write_outcome
  exits_mid :: "(nat \<times> int) list"
  w_change :: write_outcome
  wait_code :: int
  w_idle :: write_outcome
  mon_start :: start_env
  w_after :: write_outcome
  on_error :: signal_env

definition child_exits :: "(nat \<times> int) list \<Rightarrow> main_state \<Rightarrow> main_state" where
  "child_exits xs ms = ms\<lparr>m_os := fold (\<lambda>(pid, code). proc_exit pid code) xs (m_os ms)\<rparr>"

datatype loop_status = Looping | Broke | Terminated

text \<open>
  Lines 161-170: the AirPlay events. An exception out of \<^verbatim>\<open>check_event\<close> would reach
  the \<^verbatim>\<open>except Exception\<close> clause of \<^verbatim>\<open>main\<close>, which calls the signal handler.
\<close>

definition handle_events ::
  "(py_text \<Rightarrow> py_text) \<Rightarrow> iter_env \<Rightarrow> main_state \<Rightarrow> loop_status \<times> main_state" where
  "handle_events tbl env ms =
     (case airplay_manager ms of
        None \<Rightarrow> (Looping, ms)
      | Some am \<Rightarrow>
          (case check_event tbl (ev_check env) (m_fds ms, am) of
             (r, fds', am') \<Rightarrow>
               (let ms1 = ms\<lparr>m_fds := fds', airplay_manager := Some am'\<rparr>
                in case r of
                     Inl e \<Rightarrow> (Terminated, signal_handler tbl (on_error env) ms1)
                   | Inr event \<Rightarrow>
                       if event = Some (py_str ''connect'') then
                         (case switch_to_airplay (ev_stop env) (m_os ms1, audio_controller ms1) of
                            (ok, os', c') \<Rightarrow>
                              (Looping,
                               ms1\<lparr>m_os := os', audio_controller := c',
                                    m_files := write_state_file tbl (w_event env)
                                                 (EnumArg (get_state c')) (m_files ms1)\<rparr>))
                       else if event = Some (py_str ''disconnect'') then
                         (case switch_to_streaming (ev_start env) (m_os ms1, audio_controller ms1) of
                            (ok, os', c') \<Rightarrow>
                              (Looping,
                               ms1\<lparr>m_os := os', audio_controller := c',
                                    m_files := write_state_file tbl (w_event env)
                                                 (EnumArg (get_state c')) (m_files ms1)\<rparr>))
                       else (Looping, ms1))))"

text \<open>Lines 173-178: publish the state when it differs from the last one seen.\<close>

definition publish_change :: "(py_text \<Rightarrow> py_text) \<Rightarrow> iter_env \<Rightarrow> main_state \<Rightarrow> main_state" where
  "publish_change tbl env ms =
     (let current_state = get_state (audio_controller ms)
      in if Some current_state \<noteq> last_state ms
         then ms\<lparr>m_files := write_state_file tbl (w_change env) (EnumArg current_state) (m_files ms),
                 last_state := Some current_state\<rparr>
         else ms)"

text \<open>
  Lines 180-220: the three branches on the current state. In the first, a dead player
  is waited for and \<^verbatim>\<open>handle_stream_exit\<close> decides between a restart and the
  \<^verbatim>\<open>break\<close>.
\<close>

definition monitor :: "(py_text \<Rightarrow> py_text) \<Rightarrow> iter_env \<Rightarrow> main_state \<Rightarrow> loop_status \<times> main_state" where
  "monitor tbl env ms =
     (let c = audio_controller ms; current_state = get_state c
      in if current_state = STREAMING then
           (case is_playing (m_os ms) (stream_player c) of
              (True, p1) \<Rightarrow> (Looping, ms\<lparr>audio_controller := c\<lparr>stream_player := p1\<rparr>\<rparr>)
            | (False, p1) \<Rightarrow>
                (case wait (wait_code env) (m_os ms, p1) of
                   (return_code, os2, p2) \<Rightarrow>
                     (case handle_stream_exit return_code (c\<lparr>stream_player := p2\<rparr>) of
                        (True, c3) \<Rightarrow>
                          (let c4 = c3\<lparr>state := IDLE\<rparr>;
                               files4 = write_state_file tbl (w_idle env)
                                          (EnumArg (get_state c4)) (m_files ms)
                           in case start_streaming (mon_start env) (os2, c4) of
                                (True, os5, c5) \<Rightarrow>
                                  (let c6 = c5\<lparr>stream_player :=
                                                  reset_restart_count (stream_player c5)\<rparr>
                                   in (Looping,
                                       ms\<lparr>m_os := os5, audio_controller := c6,
                                           m_files := write_state_file tbl (w_after env)
                                                        (EnumArg (get_state c6)) files4\<rparr>))
                              | (False, os5, c5) \<Rightarrow>
                                  (Looping,
                                   ms\<lparr>m_os := os5, audio_controller := c5,
                                       m_files := write_state_file tbl (w_after env)
                                                    (EnumArg (get_state c5)) files4\<rparr>))
                      | (False, c3) \<Rightarrow> (Broke, ms\<lparr>m_os := os2, audio_controller := c3\<rparr>))))
         else if current_state = AIRPLAY then (Looping, ms)
         else
           (case start_streaming (mon_start env) (m_os ms, c) of
              (ok, os', c') \<Rightarrow>
                (Looping,
                 ms\<lparr>m_os := os', audio_controller := c',
                     m_files := write_state_file tbl (w_after env)
                                  (EnumArg (get_state c')) (m_files ms)\<rparr>)))"

definition main_iter :: "(py_text \<Rightarrow> py_text) \<Rightarrow> iter_env \<Rightarrow> main_state \<Rightarrow> loop_status \<times> main_state" where
  "main_iter tbl env ms =
     (case handle_events tbl env (child_exits (exits_before env) ms) of
        (Looping, ms1) \<Rightarrow> monitor tbl env (publish_change tbl env (child_exits (exits_mid env) ms1))
      | (st, ms1) \<Rightarrow> (st, ms1))"

text \<open>
  \<^verbatim>\<open>while True\<close>: the loop runs as long as the environment goes on; a list of
  environments is a finite stretch of the run. \<open>Looping\<close> says that the loop has not
  ended within it, \<open>Broke\<close> that it has reached the \<^verbatim>\<open>break\<close>, after which
  \<^verbatim>\<open>main\<close> returns without another statement.
\<close>

fun main_loop ::
  "(py_text \<Rightarrow> py_text) \<Rightarrow> iter_env list \<Rightarrow> main_state \<Rightarrow> loop_status \<times> main_state" where
  "main_loop tbl [] ms = (Looping, ms)"
| "main_loop tbl (env # envs) ms =
     (case main_iter tbl env ms of
        (Looping, ms') \<Rightarrow> main_loop tbl envs ms'
      | (st, ms') \<Rightarrow> (st, ms'))"

text \<open>
  \<^verbatim>\<open>main\<close> up to the loop: the components, the pipe (\<open>ipc_ok\<close> is the result of
  \<^verbatim>\<open>setup_ipc\<close>), the first \<^verbatim>\<open>start_streaming\<close> (None is \<^verbatim>\<open>sys.exit(1)\<close>) and the
  first publication. \<open>fs0\<close> is the file system the program finds.
\<close>

record boot_env =
  ipc_ok :: bool
  first_open :: open_outcome
  first_start :: start_env
  first_write :: write_outcome

definition main_boot ::
  "(py_text \<Rightarrow> py_text) \<Rightarrow> string \<Rightarrow> int \<Rightarrow> fs_state \<Rightarrow> boot_env \<Rightarrow> main_state option" where
  "main_boot tbl url vol fs0 env =
     (let c0 = AudioController_init url vol;
          (fds, am) = (if \<not> ipc_ok env then ([], None)
                       else (case open_pipe (first_open env) ([], AirPlayManager_init) of
                               (ok, fds1, am1) \<Rightarrow> (fds1, Some am1)))
      in case start_streaming (first_start env) (\<lparr>procs = [], calls = []\<rparr>, c0) of
           (False, os1, c1) \<Rightarrow> None
         | (True, os1, c1) \<Rightarrow>
             Some \<lparr>m_os = os1, m_fds = fds,
                   m_files = write_state_file tbl (first_write env) (EnumArg (get_state c1)) [fs0],
                   audio_controller = c1, airplay_manager = am, last_state = None\<rparr>)"

subsection \<open>What a reader of the status file may see\<close>

text \<open>The three tokens of the status file, and the line that carries a token.\<close>

definition status_tokens :: "string list" where
  "status_tokens = [''streaming'', ''airplay'', ''idle'']"

definition status_line :: "string \<Rightarrow> py_text" where
  "status_line tok = py_str tok @ [0x0A]"






subsection \<open>Drivers for stating the properties\<close>

text \<open>Consecutive player exits handed to \<^verbatim>\<open>handle_stream_exit\<close>, with the answers.\<close>

fun handle_exits :: "int list \<Rightarrow> AudioController \<Rightarrow> bool list \<times> AudioController" where
  "handle_exits [] c = ([], c)"
| "handle_exits (rc # rcs) c =
     (case handle_stream_exit rc c of (b, c') \<Rightarrow>
        (case handle_exits rcs c' of (bs, c'') \<Rightarrow> (b # bs, c'')))"

text \<open>
  The calls a client of the controller can make, and the one thing the environment
  does on its own: a child exits.
\<close>

datatype ctl_op =
  StartStreaming start_env
| StopStreaming stop_env
| SwitchToAirplay stop_env
| SwitchToStreaming start_env
| HandleStreamExit int
| PlayerWait int
| ChildExits nat int

fun apply_op :: "ctl_op \<Rightarrow> os_state \<times> AudioController \<Rightarrow> os_state \<times> AudioController" where
  "apply_op (StartStreaming env) s = snd (start_streaming env s)"
| "apply_op (StopStreaming env) s = stop_streaming env s"
| "apply_op (SwitchToAirplay env) s = snd (switch_to_airplay env s)"
| "apply_op (SwitchToStreaming env) s = snd (switch_to_streaming env s)"
| "apply_op (HandleStreamExit rc) s = (fst s, snd (handle_stream_exit rc (snd s)))"
| "apply_op (PlayerWait code) s =
     (case wait code (fst s, stream_player (snd s)) of
        (rc, os', p') \<Rightarrow> (os', (snd s)\<lparr>stream_player := p'\<rparr>))"
| "apply_op (ChildExits pid code) s = (proc_exit pid code (fst s), snd s)"

definition run_ops :: "ctl_op list \<Rightarrow> os_state \<times> AudioController \<Rightarrow> os_state \<times> AudioController" where
  "run_ops ops s = fold apply_op ops s"

definition boot :: "string \<Rightarrow> int \<Rightarrow> os_state \<times> AudioController" where
  "boot url vol = (\<lparr>procs = [], calls = []\<rparr>, AudioController_init url vol)"

definition live :: "os_state \<Rightarrow> nat \<Rightarrow> bool" where
  "live os i = (i < length (procs os) \<and> procs os ! i = Running)"

text \<open>
  A running child is the one the player holds, in mode STREAMING with the playing flag
  set; and the handle, when there is one, indexes the table.
\<close>

definition owns_live :: "os_state \<times> AudioController \<Rightarrow> bool" where
  "owns_live s =
     (case s of (os, c) \<Rightarrow>
        (\<forall>i. live os i \<longrightarrow>
           state c = STREAMING \<and> process (stream_player c) = Some i
           \<and> is_playing_flag (stream_player c))
      \<and> (\<forall>pid. process (stream_player c) = Some pid \<longrightarrow> pid < length (procs os)))"

subsection \<open>A concrete run\<close>

text \<open>
  The program starts on a machine where mpv is installed and the pipe can be opened, and
  the first start of the player succeeds. During the first iteration of the loop no event
  arrives and the player (child 0) has exited with code 0.
\<close>

definition mpv_starts :: start_env where
  "mpv_starts = \<lparr>probe = ProbeReturn 0, popen = PopenOk StillRunning\<rparr>"

definition radio_boot :: boot_env where
  "radio_boot =
     \<lparr>ipc_ok = True, first_open = OpenReturns 3, first_start = mpv_starts,
      first_write = WriteOk\<rparr>"

definition exit0_iter :: iter_env where
  "exit0_iter =
     \<lparr>exits_before = [(0, 0)],
      ev_check = \<lparr>reopen = PipeMissing, select_res = Inr False, read_res = Inr [],
                  close_ok = True, exists_after = True, reopen_after = PipeMissing\<rparr>,
      ev_stop = ExitsInTime 0, ev_start = mpv_starts, w_event = WriteOk, exits_mid = [],
      w_change = WriteOk, wait_code = 0, w_idle = WriteOk, mon_start = mpv_starts,
      w_after = WriteOk,
      on_error = \<lparr>sh_write = WriteOk, sh_stop = ExitsInTime 0, sh_close = True\<rparr>\<rparr>"

definition radio_run :: "(loop_status \<times> main_state) option" where
  "radio_run =
     map_option (main_loop (\<lambda>t. t) [exit0_iter])
       (main_boot (\<lambda>t. t) ''http://radio'' 100 \<lparr>state_file = None, temp_file = None\<rparr>
          radio_boot)"

section \<open>Properties of the player and the controller\<close>

subsection \<open>The restart budget\<close>

lemma handle_stream_exit_abnormal:
  "state c = STREAMING \<Longrightarrow> rc \<noteq> 0 \<Longrightarrow>
   handle_stream_exit rc c =
     (restart_count (stream_player c) + 1 < max_restart_attempts (stream_player c),
      c\<lparr>stream_player := (stream_player c)\<lparr>restart_count := restart_count (stream_player c) + 1\<rparr>\<rparr>)"
  by (auto simp: handle_stream_exit_def increment_restart_count_def Let_def split: bool.splits)

lemma handle_exits_abnormal:
  "state c = STREAMING \<Longrightarrow> \<forall>rc\<in>set rcs. rc \<noteq> 0 \<Longrightarrow>
   fst (handle_exits rcs c) =
     map (\<lambda>i. restart_count (stream_player c) + int i + 1 < max_restart_attempts (stream_player c))
       [0..<length rcs]"
proof (induction rcs arbitrary: c)
  case Nil
  then show ?case by simp
next
  case (Cons rc rcs)
  let ?c' = "c\<lparr>stream_player := (stream_player c)\<lparr>restart_count := restart_count (stream_player c) + 1\<rparr>\<rparr>"
  have step: "handle_stream_exit rc c =
      (restart_count (stream_player c) + 1 < max_restart_attempts (stream_player c), ?c')"
    using Cons.prems by (simp add: handle_stream_exit_abnormal)
  have ih: "fst (handle_exits rcs ?c') =
     map (\<lambda>i. restart_count (stream_player ?c') + int i + 1 < max_restart_attempts (stream_player ?c'))
       [0..<length rcs]"
    using Cons.prems by (intro Cons.IH) simp_all
  have "[0..<length (rc # rcs)] = 0 # map Suc [0..<length rcs]"
    by (simp add: upt_conv_Cons map_Suc_upt del: upt_Suc)
  then show ?case
    using step ih by (simp add: split_beta comp_def add.assoc del: upt_Suc)
qed

text \<open>
  Claim C2. In mode STREAMING, with the maximum of 10 the constructor sets, an exit with
  a code other than 0 adds exactly one to the restart counter and changes nothing else,
  and \<^verbatim>\<open>handle_stream_exit\<close> answers True exactly when the counter after the
  increment is below 10. Hence, from a counter of 0, ten such exits in a row are answered
  True nine times and then False. \<^verbatim>\<open>reset_restart_count\<close> puts the counter back to 0.
\<close>

theorem restart_budget:
  assumes "state c = STREAMING" and "max_restart_attempts (stream_player c) = 10"
  shows "(return_code \<noteq> 0 \<longrightarrow>
            handle_stream_exit return_code c =
              (restart_count (stream_player c) + 1 < 10,
               c\<lparr>stream_player :=
                    (stream_player c)\<lparr>restart_count := restart_count (stream_player c) + 1\<rparr>\<rparr>))
       \<and> (restart_count (stream_player c) = 0 \<and> length rcs = 10 \<and> (\<forall>rc\<in>set rcs. rc \<noteq> 0) \<longrightarrow>
            fst (handle_exits rcs c) = replicate 9 True @ [False])
       \<and> restart_count (reset_restart_count p) = 0"
proof (intro conjI impI)
  assume "return_code \<noteq> 0"
  then show "handle_stream_exit return_code c =
              (restart_count (stream_player c) + 1 < 10,
               c\<lparr>stream_player :=
                    (stream_player c)\<lparr>restart_count := restart_count (stream_player c) + 1\<rparr>\<rparr>)"
    using assms by (simp add: handle_stream_exit_abnormal)
next
  assume h: "restart_count (stream_player c) = 0 \<and> length rcs = 10 \<and> (\<forall>rc\<in>set rcs. rc \<noteq> 0)"
  have "fst (handle_exits rcs c) = map (\<lambda>i. int i + 1 < 10) [0..<10]"
    using handle_exits_abnormal [of c rcs] assms h by simp
  also have "\<dots> = replicate 9 True @ [False]"
    by (simp add: upt_rec numeral_eq_Suc)
  finally show "fst (handle_exits rcs c) = replicate 9 True @ [False]" .
next
  show "restart_count (reset_restart_count p) = 0"
    by (simp add: reset_restart_count_def)
qed

theorem restart_budget_witness:
  "handle_stream_exit 1 ((AudioController_init ''http://radio'' 100)\<lparr>state := STREAMING\<rparr>) =
     (True,
      (AudioController_init ''http://radio'' 100)
        \<lparr>state := STREAMING,
         stream_player := (StreamPlayer_init ''http://radio'' 100)\<lparr>restart_count := 1\<rparr>\<rparr>)
   \<and> fst (handle_exits [1, 1, 2, 1, - 9, 1, 1, 2, 1, 1]
            ((AudioController_init ''http://radio'' 100)\<lparr>state := STREAMING\<rparr>))
       = [True, True, True, True, True, True, True, True, True, False]
   \<and> restart_count
        (reset_restart_count ((StreamPlayer_init ''http://radio'' 100)\<lparr>restart_count := 7\<rparr>)) = 0"
  using restart_budget
          [of "(AudioController_init ''http://radio'' 100)\<lparr>state := STREAMING\<rparr>" 1
              "[1, 1, 2, 1, - 9, 1, 1, 2, 1, 1]"
              "(StreamPlayer_init ''http://radio'' 100)\<lparr>restart_count := 7\<rparr>"]
  by (simp add: AudioController_init_def StreamPlayer_init_def numeral_eq_Suc
      del: handle_exits.simps)

subsection \<open>Exits that never restart\<close>

text \<open>
  Claim C7. \<^verbatim>\<open>handle_stream_exit\<close> answers False for every exit code when the mode is
  not STREAMING, and for exit code 0 whatever the restart counter holds; in both cases
  the controller, and with it the counter, is left as it was.
\<close>

theorem handle_stream_exit_no_restart:
  "state c \<noteq> STREAMING \<or> return_code = 0 \<Longrightarrow> handle_stream_exit return_code c = (False, c)"
  by (auto simp: handle_stream_exit_def)

theorem handle_stream_exit_no_restart_witness:
  "handle_stream_exit 1 (AudioController_init ''http://radio'' 100)
     = (False, AudioController_init ''http://radio'' 100)
   \<and> handle_stream_exit 0
       ((AudioController_init ''http://radio'' 100)
          \<lparr>state := STREAMING,
           stream_player := (StreamPlayer_init ''http://radio'' 100)\<lparr>restart_count := 3\<rparr>\<rparr>)
     = (False,
        (AudioController_init ''http://radio'' 100)
          \<lparr>state := STREAMING,
           stream_player := (StreamPlayer_init ''http://radio'' 100)\<lparr>restart_count := 3\<rparr>\<rparr>)"
proof -
  have h1: "state (AudioController_init ''http://radio'' 100) \<noteq> STREAMING \<or> (1::int) = 0"
    by (simp add: AudioController_init_def)
  have h2: "state ((AudioController_init ''http://radio'' 100)
          \<lparr>state := STREAMING,
           stream_player := (StreamPlayer_init ''http://radio'' 100)\<lparr>restart_count := 3\<rparr>\<rparr>)
          \<noteq> STREAMING \<or> (0::int) = 0"
    by simp
  show ?thesis
    using handle_stream_exit_no_restart [OF h1] handle_stream_exit_no_restart [OF h2] by simp
qed

subsection \<open>Streaming is refused while the receiver is active\<close>

text \<open>
  Claim C6. In mode AIRPLAY \<^verbatim>\<open>start_streaming\<close> returns False; the process table and the
  log of process calls are unchanged (no player is launched) and so is the controller,
  whose mode remains AIRPLAY.
\<close>

theorem start_streaming_refused_in_airplay:
  "state c = AIRPLAY \<Longrightarrow> start_streaming env (os, c) = (False, os, c)"
  by (simp add: start_streaming_def)

theorem start_streaming_refused_in_airplay_witness:
  "start_streaming \<lparr>probe = ProbeReturn 0, popen = PopenOk StillRunning\<rparr>
     (\<lparr>procs = [], calls = []\<rparr>, (AudioController_init ''http://radio'' 100)\<lparr>state := AIRPLAY\<rparr>)
   = (False, \<lparr>procs = [], calls = []\<rparr>,
      (AudioController_init ''http://radio'' 100)\<lparr>state := AIRPLAY\<rparr>)"
proof -
  have h: "state ((AudioController_init ''http://radio'' 100)\<lparr>state := AIRPLAY\<rparr>) = AIRPLAY"
    by simp
  show ?thesis by (rule start_streaming_refused_in_airplay [OF h])
qed

subsection \<open>Stopping the player\<close>

lemma stop_clears: "process (snd (stop env s)) = None"
  by (cases s) (auto simp: stop_def Let_def split: option.splits stop_env.splits)

lemma stop_no_handle: "process p = None \<Longrightarrow> stop env (os, p) = (os, p)"
  by (simp add: stop_def)

text \<open>
  Claim C9. After every call of \<^verbatim>\<open>stop\<close> the handle is None and \<^verbatim>\<open>is_playing()\<close>
  returns False, and a second call right after the first changes nothing: neither the
  player, nor the process table, nor the log of process calls.
\<close>

theorem stop_idempotent:
  "process (snd (stop env s)) = None
   \<and> fst (is_playing (fst (stop env s)) (snd (stop env s))) = False
   \<and> stop env' (stop env s) = stop env s"
proof -
  have 1: "process (snd (stop env s)) = None" by (rule stop_clears)
  have 2: "fst (is_playing (fst (stop env s)) (snd (stop env s))) = False"
    using 1 by (simp add: is_playing_def)
  have 3: "stop env' (stop env s) = stop env s"
    using stop_no_handle [OF 1, of env' "fst (stop env s)"] by simp
  from 1 2 3 show ?thesis by blast
qed

theorem stop_idempotent_witness:
  "stop (ExitsInTime 0)
     (stop (TimesOut (- 9))
        (\<lparr>procs = [Running], calls = [Popen_call 0]\<rparr>,
         (StreamPlayer_init ''http://radio'' 100)\<lparr>process := Some 0, is_playing_flag := True\<rparr>))
   = (\<lparr>procs = [Exited (- 9)], calls = [Popen_call 0, Terminate_call 0, Kill_call 0]\<rparr>,
      StreamPlayer_init ''http://radio'' 100)"
proof -
  have "stop (TimesOut (- 9))
        (\<lparr>procs = [Running], calls = [Popen_call 0]\<rparr>,
         (StreamPlayer_init ''http://radio'' 100)\<lparr>process := Some 0, is_playing_flag := True\<rparr>)
     = (\<lparr>procs = [Exited (- 9)], calls = [Popen_call 0, Terminate_call 0, Kill_call 0]\<rparr>,
        StreamPlayer_init ''http://radio'' 100)"
    by (simp add: stop_def poll_def proc_exit_def StreamPlayer_init_def)
  then show ?thesis
    using stop_idempotent
            [of "TimesOut (- 9)"
                "(\<lparr>procs = [Running], calls = [Popen_call 0]\<rparr>,
                  (StreamPlayer_init ''http://radio'' 100)
                    \<lparr>process := Some 0, is_playing_flag := True\<rparr>)"
                "ExitsInTime 0"]
    by simp
qed

subsection \<open>Switching to the receiver\<close>

text \<open>
  Claim C5. From every mode \<^verbatim>\<open>switch_to_airplay\<close> returns True and leaves the mode
  AIRPLAY. A second call right after the first returns True and leaves the controller,
  the process table and the log of process calls exactly as the first call left them: it
  starts and stops nothing.
\<close>

theorem switch_to_airplay_idempotent:
  "fst (switch_to_airplay env s) = True
   \<and> state (snd (snd (switch_to_airplay env s))) = AIRPLAY
   \<and> switch_to_airplay env' (snd (switch_to_airplay env s)) = (True, snd (switch_to_airplay env s))"
  by (cases s) (auto simp: switch_to_airplay_def split: prod.splits)

theorem switch_to_airplay_idempotent_witness:
  "switch_to_airplay (ExitsInTime 0)
     (snd (switch_to_airplay (ExitsInTime 4)
        (\<lparr>procs = [Running], calls = [Popen_call 0]\<rparr>,
         (AudioController_init ''http://radio'' 100)
           \<lparr>state := STREAMING,
            stream_player := (StreamPlayer_init ''http://radio'' 100)
                               \<lparr>process := Some 0, is_playing_flag := True\<rparr>\<rparr>)))
   = (True, \<lparr>procs = [Exited 4], calls = [Popen_call 0, Terminate_call 0]\<rparr>,
      (AudioController_init ''http://radio'' 100)\<lparr>state := AIRPLAY\<rparr>)"
proof -
  have "snd (switch_to_airplay (ExitsInTime 4)
        (\<lparr>procs = [Running], calls = [Popen_call 0]\<rparr>,
         (AudioController_init ''http://radio'' 100)
           \<lparr>state := STREAMING,
            stream_player := (StreamPlayer_init ''http://radio'' 100)
                               \<lparr>process := Some 0, is_playing_flag := True\<rparr>\<rparr>))
     = (\<lparr>procs = [Exited 4], calls = [Popen_call 0, Terminate_call 0]\<rparr>,
        (AudioController_init ''http://radio'' 100)\<lparr>state := AIRPLAY\<rparr>)"
    by (simp add: switch_to_airplay_def stop_streaming_def stop_def poll_def proc_exit_def
        AudioController_init_def StreamPlayer_init_def)
  then show ?thesis
    using switch_to_airplay_idempotent
            [of "ExitsInTime 4"
                "(\<lparr>procs = [Running], calls = [Popen_call 0]\<rparr>,
                  (AudioController_init ''http://radio'' 100)
                    \<lparr>state := STREAMING,
                     stream_player := (StreamPlayer_init ''http://radio'' 100)
                                        \<lparr>process := Some 0, is_playing_flag := True\<rparr>\<rparr>)"
                "ExitsInTime 0"]
    by simp
qed

subsection \<open>Failed starts and the handle\<close>

text \<open>
  Claim C10. When mpv is found and \<^verbatim>\<open>start\<close> fails because the child has exited within
  the grace window, or through the generic exception branch, it returns False with the
  handle None, and \<^verbatim>\<open>is_playing()\<close> then returns False. In the
  \<^verbatim>\<open>FileNotFoundError\<close> and \<^verbatim>\<open>PermissionError\<close> branches it returns False and leaves
  the player as it was, so a handle that was there before the call is still there.
\<close>

theorem start_failure_handle:
  assumes "is_mpv_available (probe env)"
  shows "(popen env = PopenOk (ExitedEarly code ok) \<or> popen env = PopenOtherError \<longrightarrow>
            fst (start env (os, p)) = False
          \<and> process (snd (snd (start env (os, p)))) = None
          \<and> fst (is_playing (fst (snd (start env (os, p)))) (snd (snd (start env (os, p))))) = False)
       \<and> (popen env = PopenFileNotFoundError \<or> popen env = PopenPermissionError \<longrightarrow>
            start env (os, p) = (False, os, p)
          \<and> (process p \<noteq> None \<longrightarrow> process (snd (snd (start env (os, p)))) \<noteq> None))"
  using assms by (auto simp: start_def is_playing_def)

theorem start_failure_handle_witness:
  "process (snd (snd (start \<lparr>probe = ProbeReturn 0, popen = PopenOk (ExitedEarly 2 True)\<rparr>
       (\<lparr>procs = [Exited 1], calls = [Popen_call 0]\<rparr>,
        (StreamPlayer_init ''http://radio'' 100)\<lparr>process := Some 0\<rparr>)))) = None
   \<and> process (snd (snd (start \<lparr>probe = ProbeReturn 0, popen = PopenFileNotFoundError\<rparr>
       (\<lparr>procs = [Exited 1], calls = [Popen_call 0]\<rparr>,
        (StreamPlayer_init ''http://radio'' 100)\<lparr>process := Some 0\<rparr>)))) \<noteq> None"
proof -
  have h: "is_mpv_available (probe \<lparr>probe = ProbeReturn 0, popen = pp\<rparr>)" for pp
    by (simp add: is_mpv_available_def)
  show ?thesis
    using start_failure_handle
            [OF h, of "PopenOk (ExitedEarly 2 True)" 2 True
               "\<lparr>procs = [Exited 1], calls = [Popen_call 0]\<rparr>"
               "(StreamPlayer_init ''http://radio'' 100)\<lparr>process := Some 0\<rparr>"]
          start_failure_handle
            [OF h, of PopenFileNotFoundError 2 True
               "\<lparr>procs = [Exited 1], calls = [Popen_call 0]\<rparr>"
               "(StreamPlayer_init ''http://radio'' 100)\<lparr>process := Some 0\<rparr>"]
    by simp
qed

subsection \<open>Receiver mode and the player process\<close>

lemma live_spawn: "live (spawn st os) i = (live os i \<or> (i = length (procs os) \<and> st = Running))"
  by (auto simp: live_def spawn_def nth_append)

lemma live_proc_exit: "live (proc_exit pid code os) i = (live os i \<and> i \<noteq> pid)"
  by (auto simp: live_def proc_exit_def nth_list_update)

lemma live_calls [simp]: "live (os\<lparr>calls := cs\<rparr>) i = live os i"
  by (simp add: live_def)

lemma length_spawn [simp]: "length (procs (spawn st os)) = Suc (length (procs os))"
  by (simp add: spawn_def)

lemma length_proc_exit [simp]: "length (procs (proc_exit pid code os)) = length (procs os)"
  by (simp add: proc_exit_def)

lemma poll_live: "live os pid \<Longrightarrow> poll os pid = None"
  by (simp add: poll_def live_def)

lemma poll_Some_not_live: "poll os pid = Some c \<Longrightarrow> \<not> live os pid"
  by (auto simp: poll_def live_def split: if_splits)

lemma poll_None_live: "pid < length (procs os) \<Longrightarrow> poll os pid = None \<Longrightarrow> live os pid"
  by (auto simp: poll_def live_def split: pstatus.splits)

lemma owns_live_start_streaming:
  assumes "owns_live s" shows "owns_live (snd (start_streaming env s))"
proof (cases s)
  case (Pair os c)
  show ?thesis
  proof (cases "state c = AIRPLAY \<or> (state c = STREAMING \<and> fst (is_playing os (stream_player c)))")
    case True
    then show ?thesis using assms Pair by (auto simp: start_streaming_def)
  next
    case False
    have nolive: "\<not> live os i" for i
    proof
      assume l: "live os i"
      with assms Pair have a: "state c = STREAMING" "process (stream_player c) = Some i"
        "is_playing_flag (stream_player c)" "i < length (procs os)"
        by (auto simp: owns_live_def)
      with l have "fst (is_playing os (stream_player c))"
        by (simp add: is_playing_def poll_live)
      with a False show False by simp
    qed
    have valid: "process (stream_player c) = Some pid \<Longrightarrow> pid < length (procs os)" for pid
      using assms Pair by (auto simp: owns_live_def)
    show ?thesis
      using False nolive valid Pair
      by (auto simp: start_streaming_def start_def owns_live_def live_spawn is_playing_def Let_def
          less_Suc_eq
          split: popen_outcome.splits after_sleep.splits option.splits bool.splits if_splits)
  qed
qed

lemma owns_live_stop_streaming:
  assumes "owns_live s" shows "owns_live (stop_streaming env s)"
proof (cases s)
  case (Pair os c)
  then show ?thesis
    using assms
    by (auto simp: stop_streaming_def stop_def owns_live_def live_proc_exit Let_def
        dest: poll_Some_not_live split: option.splits stop_env.splits)
qed

lemma stop_streaming_not_streaming:
  "state (snd (stop_streaming env s)) \<noteq> STREAMING"
  by (cases s) (auto simp: stop_streaming_def split: prod.splits)

lemma owns_live_switch_to_airplay:
  assumes "owns_live s" shows "owns_live (snd (switch_to_airplay env s))"
proof (cases s)
  case (Pair os c)
  show ?thesis
  proof (cases "state c = STREAMING")
    case True
    obtain os' c' where st: "stop_streaming env (os, c) = (os', c')" by force
    have "owns_live (os', c')" "state c' \<noteq> STREAMING"
      using owns_live_stop_streaming [OF assms, of env] stop_streaming_not_streaming [of env s]
        st Pair by auto
    then have "owns_live (os', c'\<lparr>state := AIRPLAY\<rparr>)"
      by (auto simp: owns_live_def)
    then show ?thesis using True Pair st by (simp add: switch_to_airplay_def)
  next
    case False
    then show ?thesis using assms Pair
      by (auto simp: switch_to_airplay_def owns_live_def)
  qed
qed

lemma owns_live_switch_to_streaming:
  assumes "owns_live s" shows "owns_live (snd (switch_to_streaming env s))"
proof (cases s)
  case (Pair os c)
  show ?thesis
  proof (cases "state c = STREAMING \<and> fst (is_playing os (stream_player c))")
    case True
    then show ?thesis using assms Pair by (simp add: switch_to_streaming_def)
  next
    case False
    define c1 where "c1 = (if state c = STREAMING
                     then c\<lparr>stream_player := snd (is_playing os (stream_player c)), state := IDLE\<rparr>
                     else c)"
    define c2 where "c2 = (if state c1 = AIRPLAY then c1\<lparr>state := IDLE\<rparr> else c1)"
    have nolive: "\<not> live os i" if "state c = STREAMING" for i
    proof
      assume l: "live os i"
      with assms Pair have a: "process (stream_player c) = Some i"
        "is_playing_flag (stream_player c)" "i < length (procs os)"
        by (auto simp: owns_live_def)
      with l have "fst (is_playing os (stream_player c))"
        by (simp add: is_playing_def poll_live)
      with that False show False by simp
    qed
    have "owns_live (os, c1)"
      using assms Pair nolive
      by (auto simp: c1_def owns_live_def is_playing_def split: option.splits)
    then have "owns_live (os, c2)"
      by (auto simp: c2_def owns_live_def)
    then have "owns_live (snd (start_streaming env (os, c2)))"
      by (rule owns_live_start_streaming)
    moreover have "switch_to_streaming env s = start_streaming env (os, c2)"
      using False Pair by (auto simp: switch_to_streaming_def c1_def c2_def Let_def)
    ultimately show ?thesis by simp
  qed
qed

lemma owns_live_handle_stream_exit:
  "owns_live (os, c) \<Longrightarrow> owns_live (os, snd (handle_stream_exit rc c))"
  by (auto simp: owns_live_def handle_stream_exit_def increment_restart_count_def Let_def
      split: bool.splits)

lemma owns_live_wait:
  assumes "owns_live (os, c)" "wait code (os, stream_player c) = (rc, os', p')"
  shows "owns_live (os', c\<lparr>stream_player := p'\<rparr>)"
  using assms
  by (auto simp: owns_live_def wait_def live_proc_exit dest: poll_Some_not_live
      split: option.splits)

lemma owns_live_proc_exit:
  "owns_live (os, c) \<Longrightarrow> owns_live (proc_exit pid code os, c)"
  by (auto simp: owns_live_def live_proc_exit)

lemma owns_live_apply_op: "owns_live s \<Longrightarrow> owns_live (apply_op op s)"
proof (cases op)
  case (PlayerWait code)
  assume a: "owns_live s"
  obtain rc os' p' where w: "wait code (fst s, stream_player (snd s)) = (rc, os', p')"
    by (metis prod_cases3)
  from a have "owns_live (fst s, snd s)" by simp
  from owns_live_wait [OF this w] show ?thesis using PlayerWait w by simp
qed (auto simp: owns_live_start_streaming owns_live_stop_streaming owns_live_switch_to_airplay
      owns_live_switch_to_streaming
      intro: owns_live_handle_stream_exit owns_live_proc_exit)

lemma owns_live_fold: "owns_live s \<Longrightarrow> owns_live (fold apply_op ops s)"
  by (induction ops arbitrary: s) (simp_all add: owns_live_apply_op)

lemma owns_live_boot: "owns_live (boot url vol)"
  by (simp add: owns_live_def boot_def live_def AudioController_init_def StreamPlayer_init_def)

lemma owns_live_run: "owns_live (run_ops ops (boot url vol))"
  unfolding run_ops_def by (rule owns_live_fold [OF owns_live_boot])

lemma handle_in_table:
  "run_ops ops (boot url vol) = (os, c) \<Longrightarrow> process (stream_player c) = Some pid
   \<Longrightarrow> pid < length (procs os)"
  using owns_live_run [of ops url vol] by (auto simp: owns_live_def)

text \<open>
  Claim C3. Start from the freshly constructed controller and run any sequence of
  \<^verbatim>\<open>start_streaming\<close>, \<^verbatim>\<open>stop_streaming\<close>, \<^verbatim>\<open>switch_to_airplay\<close>,
  \<^verbatim>\<open>switch_to_streaming\<close> and \<^verbatim>\<open>handle_stream_exit\<close> calls, under any behaviour of the
  operating system and with children exiting (and being waited for) at any point between
  the calls. Whenever the mode is then AIRPLAY, no child in the process table is running,
  and \<^verbatim>\<open>is_playing()\<close> returns False.
\<close>

theorem airplay_excludes_live_player:
  assumes "run_ops ops (boot url vol) = (os, c)" and "state c = AIRPLAY"
  shows "Running \<notin> set (procs os) \<and> fst (is_playing os (stream_player c)) = False"
proof -
  have inv: "owns_live (os, c)"
    using owns_live_fold [OF owns_live_boot, of ops url vol] assms(1) by (simp add: run_ops_def)
  have nolive: "\<not> live os i" for i
    using inv assms(2) by (auto simp: owns_live_def)
  then have 1: "Running \<notin> set (procs os)"
    by (auto simp: live_def in_set_conv_nth)
  have 2: "fst (is_playing os (stream_player c)) = False"
  proof (cases "process (stream_player c)")
    case None
    then show ?thesis by (simp add: is_playing_def)
  next
    case (Some pid)
    with inv have "pid < length (procs os)" by (auto simp: owns_live_def)
    with nolive [of pid] have "poll os pid \<noteq> None" by (auto dest: poll_None_live)
    with Some show ?thesis by (auto simp: is_playing_def)
  qed
  from 1 2 show ?thesis by simp
qed


theorem airplay_excludes_live_player_witness:
  "run_ops [StartStreaming \<lparr>probe = ProbeReturn 0, popen = PopenOk StillRunning\<rparr>,
            SwitchToAirplay (TimesOut (- 9))] (boot ''http://radio'' 100)
     = (\<lparr>procs = [Exited (- 9)], calls = [Popen_call 0, Terminate_call 0, Kill_call 0]\<rparr>,
        (AudioController_init ''http://radio'' 100)\<lparr>state := AIRPLAY\<rparr>)
   \<and> Running \<notin> set [Exited (- 9)]"
proof -
  have run: "run_ops [StartStreaming \<lparr>probe = ProbeReturn 0, popen = PopenOk StillRunning\<rparr>,
            SwitchToAirplay (TimesOut (- 9))] (boot ''http://radio'' 100)
     = (\<lparr>procs = [Exited (- 9)], calls = [Popen_call 0, Terminate_call 0, Kill_call 0]\<rparr>,
        (AudioController_init ''http://radio'' 100)\<lparr>state := AIRPLAY\<rparr>)"
    by (simp add: run_ops_def boot_def start_streaming_def start_def is_mpv_available_def
        spawn_def switch_to_airplay_def stop_streaming_def stop_def poll_def proc_exit_def
        AudioController_init_def StreamPlayer_init_def)
  have mode: "state ((AudioController_init ''http://radio'' 100)\<lparr>state := AIRPLAY\<rparr>) = AIRPLAY"
    by simp
  show ?thesis
    using run airplay_excludes_live_player [OF run mode] by simp
qed

section \<open>Properties of the event channel reader\<close>













section \<open>Properties of the supervisory loop and the status file\<close>

subsection \<open>Publications keep the status file well-formed\<close>

lemma py_str_tokens:
  "py_str ''streaming'' = [115, 116, 114, 101, 97, 109, 105, 110, 103]"
  "py_str ''airplay'' = [97, 105, 114, 112, 108, 97, 121]"
  "py_str ''idle'' = [105, 100, 108, 101]"
  by (simp_all add: py_str_def)

lemma token_lower:
  "tok \<in> set status_tokens \<Longrightarrow> py_lower tbl (py_str tok) = py_str tok"
  by (auto simp: status_tokens_def py_str_tokens py_lower_def ascii_lower_def)

lemma token_strip:
  "tok \<in> set status_tokens \<Longrightarrow> py_strip (status_line tok) = py_str tok"
  by (auto simp: status_tokens_def status_line_def py_str_tokens py_strip_def py_isspace_def)

lemma read_state_line:
  "tok \<in> set status_tokens \<Longrightarrow> state_file fs = Some (status_line tok)
   \<Longrightarrow> read_state tbl fs = Some (py_str tok)"
  by (auto simp: read_state_def token_strip token_lower Let_def status_tokens_def)













lemma handle_stream_exit_mode: "state (snd (handle_stream_exit rc c)) = state c"
  by (auto simp: handle_stream_exit_def split: prod.splits bool.splits)

lemma shutdown_mode: "state (snd (shutdown env s)) = IDLE"
  by (simp add: shutdown_def split: prod.splits)













subsection \<open>Leaving the loop through the \<^verbatim>\<open>break\<close>\<close>

lemma handle_events_not_Broke: "fst (handle_events tbl env ms) \<noteq> Broke"
proof (cases "airplay_manager ms")
  case None
  then show ?thesis by (simp add: handle_events_def)
next
  case (Some am)
  obtain r fds' am' where ce: "check_event tbl (ev_check env) (m_fds ms, am) = (r, fds', am')"
    by (rule prod_cases3)
  show ?thesis
  proof (cases r)
    case (Inl e)
    then show ?thesis using Some ce by (simp add: handle_events_def)
  next
    case (Inr event)
    then show ?thesis using Some ce by (simp add: handle_events_def split_beta Let_def)
  qed
qed

lemma monitor_Broke:
  assumes "monitor tbl env ms = (Broke, ms')"
  shows "state (audio_controller ms') = STREAMING \<and> m_files ms' = m_files ms"
proof -
  let ?c = "audio_controller ms"
  obtain playing p1 where ip: "is_playing (m_os ms) (stream_player ?c) = (playing, p1)"
    by (rule prod.exhaust)
  obtain rc os2 p2 where w: "wait (wait_code env) (m_os ms, p1) = (rc, os2, p2)"
    by (rule prod_cases3)
  obtain should c3 where hx: "handle_stream_exit rc (?c\<lparr>stream_player := p2\<rparr>) = (should, c3)"
    by (rule prod.exhaust)
  obtain ok os5 c5 where st: "start_streaming (mon_start env) (os2, c3\<lparr>state := IDLE\<rparr>) = (ok, os5, c5)"
    by (rule prod_cases3)
  obtain ok' os' c' where st': "start_streaming (mon_start env) (m_os ms, ?c) = (ok', os', c')"
    by (rule prod_cases3)
  have streaming: "state ?c = STREAMING"
    using assms st' by (auto simp: monitor_def Let_def get_state_def split: if_splits)
  then have c3: "state c3 = STREAMING"
    using handle_stream_exit_mode [of rc "?c\<lparr>stream_player := p2\<rparr>"] hx by simp
  show ?thesis
    using assms streaming ip w hx st c3
    by (cases playing; cases should; cases ok)
       (auto simp: monitor_def Let_def get_state_def)
qed

lemma main_iter_Broke:
  assumes "main_iter tbl env ms = (Broke, ms')"
  shows "state (audio_controller ms') = STREAMING"
proof -
  obtain st ms1 where he: "handle_events tbl env (child_exits (exits_before env) ms) = (st, ms1)"
    by (rule prod.exhaust)
  have "st \<noteq> Broke"
    using handle_events_not_Broke [of tbl env "child_exits (exits_before env) ms"] he by simp
  then have "st = Looping"
    using assms he by (cases st) (simp_all add: main_iter_def)
  then have "monitor tbl env (publish_change tbl env (child_exits (exits_mid env) ms1)) = (Broke, ms')"
    using assms he by (simp add: main_iter_def)
  then show ?thesis by (simp add: monitor_Broke)
qed

lemma main_loop_Broke:
  "main_loop tbl envs ms = (Broke, ms') \<Longrightarrow> state (audio_controller ms') = STREAMING"
proof (induction envs arbitrary: ms)
  case Nil
  then show ?case by simp
next
  case (Cons env envs)
  obtain st ms1 where it: "main_iter tbl env ms = (st, ms1)" by (rule prod.exhaust)
  show ?case
  proof (cases st)
    case Looping
    then show ?thesis using it Cons by simp
  next
    case Broke
    then show ?thesis using it Cons.prems main_iter_Broke [of tbl env ms ms1] by simp
  next
    case Terminated
    then show ?thesis using it Cons.prems by simp
  qed
qed

lemma signal_handler_publishes_idle:
  assumes "sh_write env = WriteOk"
  shows "state_file (last (m_files (signal_handler tbl env ms))) = Some (status_line ''idle'')
       \<and> state (audio_controller (signal_handler tbl env ms)) = IDLE"
proof -
  have "state_str tbl (StrArg (py_str ''idle'')) = py_str ''idle''"
    using token_lower [of "''idle''" tbl] by (simp add: state_str_def status_tokens_def)
  then have "state_file (last (write_state_file tbl WriteOk (StrArg (py_str ''idle'')) (m_files ms)))
      = Some (status_line ''idle'')"
    by (simp add: write_state_file_def write_state_file_steps_def status_line_def Let_def)
  then show ?thesis
    using assms shutdown_mode [of "sh_stop env" "(m_os ms, audio_controller ms)"]
    by (auto simp: signal_handler_def Let_def split: prod.splits option.splits)
qed


lemma radio_run_value:
  "radio_run =
     Some (Broke,
       \<lparr>m_os = \<lparr>procs = [Exited 0], calls = [Popen_call 0]\<rparr>,
        m_fds = [Open_call (Some 3)],
        m_files =
          [\<lparr>state_file = None, temp_file = None\<rparr>,
           \<lparr>state_file = None, temp_file = Some []\<rparr>,
           \<lparr>state_file = None, temp_file = Some (status_line ''streaming'')\<rparr>,
           \<lparr>state_file = Some (status_line ''streaming''), temp_file = None\<rparr>,
           \<lparr>state_file = Some (status_line ''streaming''), temp_file = Some []\<rparr>,
           \<lparr>state_file = Some (status_line ''streaming''),
              temp_file = Some (status_line ''streaming'')\<rparr>,
           \<lparr>state_file = Some (status_line ''streaming''), temp_file = None\<rparr>],
        audio_controller =
          \<lparr>stream_player =
             \<lparr>stream_url = ''http://radio'', volume = 100, process = Some 0,
                restart_count = 0, max_restart_attempts = 10, restart_delay = 3,
                is_playing_flag = False\<rparr>,
           state = STREAMING, ctl_stream_url = ''http://radio'', ctl_volume = 100\<rparr>,
        airplay_manager =
          Some \<lparr>pipe_path = ''/tmp/soundmaker_airplay_events'', pipe_fd = Some 3,
                is_connected_flag = False\<rparr>,
        last_state = Some STREAMING\<rparr>)"
  by code_simp

text \<open>
  Claim C1 asks that a loop ended by a player exit that is not restarted stops the
  player, publishes \<^verbatim>\<open>idle\<close> and ends in mode IDLE, as the signal handler does
  (lemma \<open>signal_handler_publishes_idle\<close>). The \<^verbatim>\<open>break\<close> does none of it: by
  \<open>main_loop_Broke\<close> the mode is STREAMING whenever the loop has ended that way, and
  in the run below, where the player exits with code 0, the loop ends with mode
  STREAMING, with the status file still read as \<^verbatim>\<open>streaming\<close>, and without any call
  to the player process after its start.
\<close>

theorem break_skips_idle:
  "map_option fst radio_run = Some Broke
   \<and> map_option (state \<circ> audio_controller \<circ> snd) radio_run = Some STREAMING
   \<and> map_option (read_state (\<lambda>t. t) \<circ> last \<circ> m_files \<circ> snd) radio_run
       = Some (Some (py_str ''streaming''))
   \<and> map_option (calls \<circ> m_os \<circ> snd) radio_run = Some [Popen_call 0]"
proof -
  have "''streaming'' \<in> set status_tokens"
    by (simp add: status_tokens_def)
  then have "read_state (\<lambda>t. t) \<lparr>state_file = Some (status_line ''streaming''), temp_file = None\<rparr>
      = Some (py_str ''streaming'')"
    by (rule read_state_line) simp
  then show ?thesis
    by (simp add: radio_run_value)
qed

subsection \<open>Every publication is an atomic replacement by a token\<close>



end
